theory Spec2Isabelle
  imports
    Complex_Main
    "HOL-Library.AList"
    "HOL-Library.Char_ord"
    "HOL-Library.List_Lexorder"
    "HOL-Library.Option_ord"
    "HOL-Library.Multiset"
begin

section \<open>The resilient request of eleniaService.ts\<close>

text \<open>
  \<^verbatim>\<open>axios.request\<close> either resolves with a response (status and payload) or rejects
  with an error. The error is a network-level failure, an error status (axios rejects on
  every status its \<^verbatim>\<open>validateStatus\<close> refuses, by default all outside 2xx) or
  any other thrown \<^verbatim>\<open>Error\<close>.
\<close>

datatype error = NetworkError | StatusError nat | OtherError string

record 'a AxiosResponse =
  status :: nat
  payload :: 'a

datatype 'a outcome = Resolved "'a AxiosResponse" | Rejected error

text \<open>
  What one call of \<^verbatim>\<open>makeRequestWithRetry\<close> did: the response it returned or the
  error it threw, the seconds it slept before each retry (in order), and the number of
  \<^verbatim>\<open>axios.request\<close> calls it made.
\<close>

record 'a retry_run =
  result :: "error + 'a AxiosResponse"
  waits :: "nat list"
  calls :: nat

definition after_wait :: "nat \<Rightarrow> 'a retry_run \<Rightarrow> 'a retry_run" where
  "after_wait waitTime r = r\<lparr>waits := waitTime # waits r, calls := Suc (calls r)\<rparr>"

text \<open>
  \<^verbatim>\<open>makeRequestWithRetry(method, url, config, attempt = 0)\<close>, lines 73-104. The
  argument \<open>request\<close> gives the outcome of the \<^verbatim>\<open>axios.request\<close> call made at
  each attempt index; \<open>m\<close> is \<^verbatim>\<open>this.maxRetries\<close>. The comparison
  \<^verbatim>\<open>attempt < this.maxRetries - 1\<close> is on integers, as in the source.
\<close>

function makeRequestWithRetry :: "nat \<Rightarrow> (nat \<Rightarrow> 'a outcome) \<Rightarrow> nat \<Rightarrow> 'a retry_run" where
  "makeRequestWithRetry m request attempt =
     (case request attempt of
        Resolved response \<Rightarrow>
          if status response = 504 \<and> int attempt < int m - 1
          then after_wait (2 ^ attempt) (makeRequestWithRetry m request (attempt + 1))
          else \<lparr>result = Inr response, waits = [], calls = 1\<rparr>
      | Rejected err \<Rightarrow>
          if int attempt < int m - 1
          then after_wait (2 ^ attempt) (makeRequestWithRetry m request (attempt + 1))
          else \<lparr>result = Inl err, waits = [], calls = 1\<rparr>)"
  by pat_completeness auto
termination
  by (relation "measure (\<lambda>(m, request, attempt). m - attempt)") auto

declare makeRequestWithRetry.simps [simp del]

text \<open>The constructor sets \<^verbatim>\<open>this.maxRetries = 5\<close> (line 56).\<close>

definition maxRetries :: nat where
  "maxRetries = 5"

text \<open>
  Concrete worlds: every call is refused as unauthorised; every call fails in the
  network; every call is answered with status 200.
\<close>

definition always_unauthorized :: "nat \<Rightarrow> unit outcome" where
  "always_unauthorized attempt = Rejected (StatusError 401)"

definition always_unreachable :: "nat \<Rightarrow> unit outcome" where
  "always_unreachable attempt = Rejected NetworkError"

definition ok_response :: "unit AxiosResponse" where
  "ok_response = \<lparr>status = 200, payload = ()\<rparr>"

definition always_ok :: "nat \<Rightarrow> unit outcome" where
  "always_ok attempt = Resolved ok_response"

section \<open>Numbers, strings and dates of the platform\<close>

text \<open>
  A JavaScript number is modelled by an exact rational; \<open>JNaN\<close> stands for
  \<^verbatim>\<open>NaN\<close>. Binary rounding of the arithmetic is not part of the model, so the
  results below are those of exact decimal arithmetic. A value read from a response
  can also be a string or \<^verbatim>\<open>undefined\<close>, which is what the
  \<^verbatim>\<open>typeof\<close> checks of the code look at.
\<close>

datatype jsval = JNumber rat | JNaN | JString string | JUndefined

text \<open>
  \<^verbatim>\<open>Number(x.toFixed(digits))\<close>: the decimal with \<open>digits\<close> places nearest to
  \<open>x\<close>; of two equally near ones \<^verbatim>\<open>toFixed\<close> takes the larger in magnitude.
\<close>

definition toFixed :: "nat \<Rightarrow> rat \<Rightarrow> rat" where
  "toFixed digits x =
     (if x < 0 then - (of_int \<lfloor>(- x) * 10 ^ digits + 1 / 2\<rfloor> / 10 ^ digits)
      else of_int \<lfloor>x * 10 ^ digits + 1 / 2\<rfloor> / 10 ^ digits)"

text \<open>The ten digits, as characters and back.\<close>

definition digit_char :: "nat \<Rightarrow> char" where
  "digit_char d = ''0123456789'' ! (d mod 10)"

definition digit_of :: "char \<Rightarrow> nat option" where
  "digit_of c = map_of (zip ''0123456789'' [0..<10]) c"

text \<open>A number in a fixed width, zero-padded; and in as many digits as it needs.\<close>

fun pad :: "nat \<Rightarrow> nat \<Rightarrow> string" where
  "pad 0 n = []"
| "pad (Suc w) n = pad w (n div 10) @ [digit_char (n mod 10)]"

function decimal :: "nat \<Rightarrow> string" where
  "decimal n = (if n < 10 then [digit_char n] else decimal (n div 10) @ [digit_char (n mod 10)])"
  by pat_completeness auto
termination
  by (relation "measure id") auto

declare decimal.simps [simp del]

fun digits_value :: "nat \<Rightarrow> string \<Rightarrow> nat option" where
  "digits_value n [] = Some n"
| "digits_value n (c # cs) =
     (case digit_of c of None \<Rightarrow> None | Some d \<Rightarrow> digits_value (10 * n + d) cs)"

definition num_of :: "string \<Rightarrow> nat option" where
  "num_of s = (if s = [] then None else digits_value 0 s)"

text \<open>
  Days since 1970-01-01 of a date of the proleptic Gregorian calendar, and back: the
  calendar arithmetic behind \<^verbatim>\<open>Date\<close>. A day of the month beyond the month's
  length runs over into the next month.
\<close>

definition days_from_civil :: "int \<Rightarrow> int \<Rightarrow> int \<Rightarrow> int" where
  "days_from_civil y m d =
     (let y' = (if m \<le> 2 then y - 1 else y);
          era = y' div 400;
          yoe = y' - era * 400;
          doy = (153 * (if m > 2 then m - 3 else m + 9) + 2) div 5 + d - 1;
          doe = yoe * 365 + yoe div 4 - yoe div 100 + doy
      in era * 146097 + doe - 719468)"

definition civil_from_days :: "int \<Rightarrow> int \<times> int \<times> int" where
  "civil_from_days z =
     (let z' = z + 719468;
          era = z' div 146097;
          doe = z' - era * 146097;
          yoe = (doe - doe div 1460 + doe div 36524 - doe div 146096) div 365;
          doy = doe - (365 * yoe + yoe div 4 - yoe div 100);
          mp = (5 * doy + 2) div 153;
          d = doy - (153 * mp + 2) div 5 + 1;
          m = (if mp < 10 then mp + 3 else mp - 9)
      in (yoe + era * 400 + (if m \<le> 2 then 1 else 0), m, d))"

text \<open>
  \<^verbatim>\<open>new Date(s).getTime()\<close> for a string of the ECMAScript date-time format with a
  UTC offset, \<^verbatim>\<open>YYYY-MM-DDTHH:mm:ss\<close>, an optional \<^verbatim>\<open>.sss\<close>, then
  \<^verbatim>\<open>Z\<close> or \<^verbatim>\<open>+HH:mm\<close> or \<^verbatim>\<open>-HH:mm\<close>: the milliseconds since the epoch.
  \<open>None\<close> is the invalid date, whose \<^verbatim>\<open>getTime()\<close> is \<^verbatim>\<open>NaN\<close>. Strings
  without an offset, which the platform reads in the time zone of the device, and the
  other formats an engine may accept are outside the model and read as invalid.
\<close>

definition parse_offset :: "string \<Rightarrow> int option" where
  "parse_offset z =
     (if z = ''Z'' then Some 0
      else if length z = 6 \<and> (take 1 z = ''+'' \<or> take 1 z = ''-'') \<and> take 1 (drop 3 z) = '':''
      then (case (num_of (take 2 (drop 1 z)), num_of (drop 4 z)) of
              (Some h, Some mi) \<Rightarrow>
                if h < 24 \<and> mi < 60
                then Some ((if take 1 z = ''-'' then - 1 else 1) * (60 * int h + int mi))
                else None
            | _ \<Rightarrow> None)
      else None)"

definition parse_fraction :: "string \<Rightarrow> (int \<times> string) option" where
  "parse_fraction r =
     (if take 1 r = ''.''
      then (case num_of (take 3 (drop 1 r)) of
              Some ms \<Rightarrow> if length r \<ge> 4 then Some (int ms, drop 4 r) else None
            | None \<Rightarrow> None)
      else Some (0, r))"

definition Date_parse :: "string \<Rightarrow> int option" where
  "Date_parse s =
     (if length s < 20 \<or> take 1 (drop 4 s) \<noteq> ''-'' \<or> take 1 (drop 7 s) \<noteq> ''-''
         \<or> take 1 (drop 10 s) \<noteq> ''T'' \<or> take 1 (drop 13 s) \<noteq> '':''
         \<or> take 1 (drop 16 s) \<noteq> '':''
      then None
      else
        (case (num_of (take 4 s), num_of (take 2 (drop 5 s)), num_of (take 2 (drop 8 s)),
               num_of (take 2 (drop 11 s)), num_of (take 2 (drop 14 s)),
               num_of (take 2 (drop 17 s)), parse_fraction (drop 19 s)) of
           (Some y, Some mo, Some d, Some h, Some mi, Some sec, Some (ms, z)) \<Rightarrow>
             (case parse_offset z of
                Some off \<Rightarrow>
                  if 1 \<le> mo \<and> mo \<le> 12 \<and> 1 \<le> d \<and> d \<le> 31 \<and> h < 24 \<and> mi < 60 \<and> sec < 60
                  then Some ((((days_from_civil (int y) (int mo) (int d) * 24 + int h) * 60
                                + int mi - off) * 60 + int sec) * 1000 + ms)
                  else None
              | None \<Rightarrow> None)
         | _ \<Rightarrow> None))"

text \<open>
  \<^verbatim>\<open>toISOString()\<close> of a valid date: always UTC, always with the three digits of
  the milliseconds, \<^verbatim>\<open>YYYY-MM-DDTHH:mm:ss.sssZ\<close> (a year outside 0 to 9999 with a
  sign and six digits).
\<close>

definition year_string :: "int \<Rightarrow> string" where
  "year_string y =
     (if 0 \<le> y \<and> y \<le> 9999 then pad 4 (nat y)
      else (if y < 0 then ''-'' else ''+'') @ pad 6 (nat \<bar>y\<bar>))"

definition toISOString :: "int \<Rightarrow> string" where
  "toISOString instant =
     (let ms = instant mod 1000; secs = instant div 1000;
          sec = secs mod 60; mins = secs div 60;
          mi = mins mod 60; hrs = mins div 60;
          h = hrs mod 24; days = hrs div 24
      in case civil_from_days days of
           (y, m, d) \<Rightarrow>
             year_string y @ ''-'' @ pad 2 (nat m) @ ''-'' @ pad 2 (nat d) @ ''T''
             @ pad 2 (nat h) @ '':'' @ pad 2 (nat mi) @ '':'' @ pad 2 (nat sec)
             @ ''.'' @ pad 3 (nat ms) @ ''Z'')"

text \<open>
  \<^verbatim>\<open>toLocaleDateString('en-CA', {year: 'numeric', month: '2-digit', timeZone: 'UTC'})\<close>:
  the year and the two-digit month of the UTC date, as \<^verbatim>\<open>2024-03\<close>.
\<close>

definition toLocaleDateString_enCA :: "int \<Rightarrow> string" where
  "toLocaleDateString_enCA instant =
     (case civil_from_days (instant div 86400000) of
        (y, m, d) \<Rightarrow> decimal (nat y) @ ''-'' @ pad 2 (nat m))"

definition endsWith_Z :: "string \<Rightarrow> bool" where
  "endsWith_Z s = (s \<noteq> [] \<and> last s = CHR ''Z'')"

text \<open>\<^verbatim>\<open>s.replace(/\.000Z$/, 'Z')\<close>.\<close>

definition replace_000Z :: "string \<Rightarrow> string" where
  "replace_000Z s =
     (if length s \<ge> 5 \<and> drop (length s - 5) s = ''.000Z''
      then take (length s - 5) s @ ''Z'' else s)"

section \<open>The data of the services\<close>

text \<open>
  A reading \<^verbatim>\<open>{t, v}\<close>, a month of \<^verbatim>\<open>MeterReadingResponse\<close> with its two optional
  variants (\<open>None\<close> is \<^verbatim>\<open>undefined\<close>), and the records of dataProcessor.ts. The
  label \<^verbatim>\<open>month\<close> of a month group is only logged and is left out. The source's
  field \<^verbatim>\<open>value\<close> of a price entry is \<open>pvalue\<close> here.
\<close>

record reading =
  t :: jsval
  v :: jsval

record month_group =
  hourly_values_netted :: "reading list option"
  hourly_values :: "reading list option"

record MeterReadingResponse =
  months :: "month_group option list"

record PriceData =
  timeStamp :: string
  pvalue :: jsval

record CombinedData =
  timestamp :: string
  consumption_kWh :: rat
  price_cents_per_kWh :: rat
  cost_euros :: rat

record MonthlyData =
  month :: string
  totalConsumption :: rat
  averagePrice :: rat
  totalCost :: rat

record YearData =
  lastUpdated :: string
  hourly :: "CombinedData list"
  monthly :: "MonthlyData list"

text \<open>\<^verbatim>\<open>xs && xs.length > 0\<close> for an optional array.\<close>

definition nonEmpty :: "'a list option \<Rightarrow> bool" where
  "nonEmpty xs = (case xs of None \<Rightarrow> False | Some ys \<Rightarrow> length ys > 0)"

section \<open>eleniaService.ts: the months returned by getMeterReadings\<close>

text \<open>
  Lines 205-233. \<open>convertTimestamp\<close> is the local function of that name, which formats
  the instant in the zone Europe/Helsinki with date-fns-tz (and returns its argument
  when that fails); it is a parameter here.
\<close>

definition convertReadings :: "(jsval \<Rightarrow> jsval) \<Rightarrow> reading list \<Rightarrow> reading list" where
  "convertReadings convertTimestamp readings =
     map (\<lambda>r. r\<lparr>t := convertTimestamp (t r)\<rparr>) readings"

definition normalizeMonth :: "(jsval \<Rightarrow> jsval) \<Rightarrow> month_group \<Rightarrow> month_group" where
  "normalizeMonth convertTimestamp mg =
     (if nonEmpty (hourly_values_netted mg)
      then mg\<lparr>hourly_values_netted :=
                 map_option (convertReadings convertTimestamp) (hourly_values_netted mg),
               hourly_values := None\<rparr>
      else if nonEmpty (hourly_values mg)
      then mg\<lparr>hourly_values :=
                 map_option (convertReadings convertTimestamp) (hourly_values mg),
               hourly_values_netted := None\<rparr>
      else mg)"

definition getMeterReadings_months ::
  "(jsval \<Rightarrow> jsval) \<Rightarrow> month_group list \<Rightarrow> month_group list" where
  "getMeterReadings_months convertTimestamp ms = map (normalizeMonth convertTimestamp) ms"

section \<open>The price services\<close>

text \<open>
  \<^verbatim>\<open>fetchPriceData\<close> of the price service (lines 47-53 of its file): every row gets
  the VAT of 25.5 per cent on its value, rounded to two places, and its time stamp
  rewritten; \<^verbatim>\<open>toISOString\<close> throws a \<^verbatim>\<open>RangeError\<close> on an invalid date, which
  fails the whole fetch. A value that is not a number gives \<^verbatim>\<open>NaN\<close> (the numeric
  reading of a string is not modelled).
\<close>

definition fetchPriceData_VAT_RATE :: rat where
  "fetchPriceData_VAT_RATE = 255 / 1000"

definition withVAT :: "rat \<Rightarrow> jsval \<Rightarrow> jsval" where
  "withVAT rate x =
     (case x of JNumber y \<Rightarrow> JNumber (toFixed 2 (y * (1 + rate))) | _ \<Rightarrow> JNaN)"

definition processRow :: "PriceData \<Rightarrow> error + PriceData" where
  "processRow row =
     (case Date_parse (timeStamp row) of
        None \<Rightarrow> Inl (OtherError ''RangeError: Invalid time value'')
      | Some instant \<Rightarrow>
          Inr \<lparr>timeStamp = replace_000Z (toISOString instant),
               pvalue = withVAT fetchPriceData_VAT_RATE (pvalue row)\<rparr>)"

fun processRows :: "PriceData list \<Rightarrow> error + PriceData list" where
  "processRows [] = Inr []"
| "processRows (row # rows) =
     (case processRow row of
        Inl e \<Rightarrow> Inl e
      | Inr p \<Rightarrow> (case processRows rows of Inl e \<Rightarrow> Inl e | Inr ps \<Rightarrow> Inr (p # ps)))"

definition fetchPriceData :: "error + PriceData list \<Rightarrow> error + PriceData list" where
  "fetchPriceData response =
     (case response of Inl e \<Rightarrow> Inl e | Inr rows \<Rightarrow> processRows rows)"

text \<open>
  \<^verbatim>\<open>getCurrentSpotPrice\<close> of spotPriceService.ts, lines 13-47. \<open>getHours\<close> reads the
  hour of a time stamp in the time zone of the device and \<open>nowHours\<close> is the hour of the
  clock; the rate is the constant of lines 35-37.
\<close>

definition getCurrentSpotPrice_VAT_RATE :: rat where
  "getCurrentSpotPrice_VAT_RATE = 24 / 100"

record SpotPrice =
  spot_price :: jsval
  spot_timestamp :: string

definition getCurrentSpotPrice ::
  "(string \<Rightarrow> int) \<Rightarrow> int \<Rightarrow> error + PriceData list \<Rightarrow> error + SpotPrice" where
  "getCurrentSpotPrice getHours nowHours response =
     (case response of
        Inl e \<Rightarrow> Inl e
      | Inr rows \<Rightarrow>
          if length rows = 0 then Inl (OtherError ''No price data available'')
          else
            (case find (\<lambda>p. getHours (timeStamp p) = nowHours) rows of
               None \<Rightarrow> Inl (OtherError ''Current hour price not found'')
             | Some currentHourPrice \<Rightarrow>
                 Inr \<lparr>spot_price = withVAT getCurrentSpotPrice_VAT_RATE (pvalue currentHourPrice),
                      spot_timestamp = timeStamp currentHourPrice\<rparr>))"

section \<open>dataProcessor.ts: combineData\<close>

text \<open>
  The file holds two implementations of the class. The first one (lines 1-326) groups
  by the UTC month and falls back to the cache; it is the one modelled in full. Of the
  second one (lines 327-586) the choice of the reading variant is modelled, below.

  The price map of lines 113-128: the time stamp of an entry is read as UTC and
  rewritten by \<^verbatim>\<open>toISOString\<close>; an entry with an invalid time stamp is dropped; of two
  entries with one key the later one stays.
\<close>

definition priceKey :: "string \<Rightarrow> string option" where
  "priceKey ts =
     map_option toISOString (Date_parse (if endsWith_Z ts then ts else ts @ ''Z''))"

definition priceEntry :: "PriceData \<Rightarrow> (string \<times> jsval) option" where
  "priceEntry p =
     (case priceKey (timeStamp p) of
        None \<Rightarrow> None
      | Some normalizedTimestamp \<Rightarrow> Some (normalizedTimestamp, pvalue p))"

definition priceMap :: "PriceData list \<Rightarrow> (string \<rightharpoonup> jsval)" where
  "priceMap pricesArray = map_of (rev (List.map_filter priceEntry pricesArray))"

text \<open>
  The key under which a reading looks its price up, lines 199-210:
  \<^verbatim>\<open>new Date(timestamp).toISOString()\<close>, and no key when the date is invalid.
\<close>

definition lookupKey :: "string \<Rightarrow> string option" where
  "lookupKey ts = map_option toISOString (Date_parse ts)"

text \<open>The month key of lines 243-248, from the normalised time stamp.\<close>

definition monthKeyOf :: "string \<Rightarrow> string" where
  "monthKeyOf normalizedTimestamp =
     (case Date_parse normalizedTimestamp of
        None \<Rightarrow> ''Invalid Date''
      | Some instant \<Rightarrow> toLocaleDateString_enCA instant)"

text \<open>
  The state of the loops: the array \<^verbatim>\<open>combinedData\<close> and the map
  \<^verbatim>\<open>monthlyDataMap\<close>, whose entries stay in the order of their first insertion.
\<close>

record acc =
  combinedData :: "CombinedData list"
  monthlyDataMap :: "(string \<times> MonthlyData) list"

text \<open>Lines 234-263: the entry is pushed and added to the totals of its month.\<close>

definition emit :: "string \<Rightarrow> rat \<Rightarrow> rat \<Rightarrow> acc \<Rightarrow> acc" where
  "emit normalizedTimestampForLookup consumption price a =
     (let entry = \<lparr>timestamp = normalizedTimestampForLookup,
                   consumption_kWh = toFixed 3 consumption,
                   price_cents_per_kWh = toFixed 2 price,
                   cost_euros = toFixed 6 (consumption * price / 100)\<rparr>;
          monthKey = monthKeyOf normalizedTimestampForLookup;
          monthData = (case map_of (monthlyDataMap a) monthKey of
                         None \<Rightarrow> \<lparr>month = monthKey, totalConsumption = 0,
                                  averagePrice = 0, totalCost = 0\<rparr>
                       | Some md \<Rightarrow> md)
      in \<lparr>combinedData = combinedData a @ [entry],
          monthlyDataMap =
            AList.update monthKey
              (monthData\<lparr>totalConsumption := totalConsumption monthData + consumption_kWh entry,
                         totalCost := totalCost monthData + cost_euros entry\<rparr>)
              (monthlyDataMap a)\<rparr>)"

text \<open>
  The body of the loop over the readings, lines 181-264. A reading is skipped when its
  value is not a number or is \<^verbatim>\<open>NaN\<close>, when its time stamp is not a non-empty
  string or is not a valid date, and when the price map has no number under its key.
  (The check of \<^verbatim>\<open>isNaN(consumption)\<close> after the division cannot fail once the
  value is a number.)
\<close>

definition processReading :: "(string \<rightharpoonup> jsval) \<Rightarrow> reading \<Rightarrow> acc \<Rightarrow> acc" where
  "processReading prices r a =
     (case v r of
        JNumber wattHours \<Rightarrow>
          (case t r of
             JString ts \<Rightarrow>
               if ts = [] then a
               else
                 (case lookupKey ts of
                    None \<Rightarrow> a
                  | Some normalizedTimestampForLookup \<Rightarrow>
                      (case prices normalizedTimestampForLookup of
                         Some (JNumber price) \<Rightarrow>
                           emit normalizedTimestampForLookup (wattHours / 1000) price a
                       | _ \<Rightarrow> a))
           | _ \<Rightarrow> a)
      | _ \<Rightarrow> a)"

text \<open>Lines 162-171: the netted readings when there are any, else the other variant.\<close>

definition selectReadings :: "month_group \<Rightarrow> reading list option" where
  "selectReadings mg =
     (let hasNettedValues = nonEmpty (hourly_values_netted mg)
      in if hasNettedValues then hourly_values_netted mg else hourly_values mg)"

text \<open>
  The loops over the months and the responses, lines 144-266; \<open>None\<close> is a month or a
  response that the code skips as null or malformed.
\<close>

definition processMonth :: "(string \<rightharpoonup> jsval) \<Rightarrow> month_group option \<Rightarrow> acc \<Rightarrow> acc" where
  "processMonth prices mo a =
     (case mo of
        None \<Rightarrow> a
      | Some mg \<Rightarrow>
          (case selectReadings mg of
             None \<Rightarrow> a
           | Some readings \<Rightarrow>
               if length readings = 0 then a else fold (processReading prices) readings a))"

definition processResponse ::
  "(string \<rightharpoonup> jsval) \<Rightarrow> MeterReadingResponse option \<Rightarrow> acc \<Rightarrow> acc" where
  "processResponse prices response a =
     (case response of
        None \<Rightarrow> a
      | Some resp \<Rightarrow> fold (processMonth prices) (months resp) a)"

text \<open>Lines 269-281: the average of a month and the rounding of its totals.\<close>

definition finalizeMonth :: "MonthlyData \<Rightarrow> MonthlyData" where
  "finalizeMonth md =
     (let avgPrice = (if totalConsumption md \<noteq> 0
                      then totalCost md / totalConsumption md * 100 else 0)
      in md\<lparr>totalConsumption := toFixed 3 (totalConsumption md),
            averagePrice := toFixed 2 avgPrice,
            totalCost := toFixed 2 (totalCost md)\<rparr>)"

text \<open>
  The sort key of line 287, \<^verbatim>\<open>new Date(a.timestamp).getTime()\<close>. The sort of an
  array is stable. The month keys of line 283 are compared as strings; for keys of the
  form \<^verbatim>\<open>YYYY-MM\<close> that is the order of \<^verbatim>\<open>localeCompare\<close>.
\<close>

definition getTime :: "CombinedData \<Rightarrow> int option" where
  "getTime a = Date_parse (timestamp a)"

text \<open>
  Lines 113-293, the work between the two fetches and the write to the cache:
  \<open>nowISO\<close> is \<^verbatim>\<open>new Date().toISOString()\<close>.
\<close>

definition reconcile ::
  "MeterReadingResponse option list \<Rightarrow> PriceData list \<Rightarrow> string \<Rightarrow> YearData" where
  "reconcile responses pricesArray nowISO =
     (let prices = priceMap pricesArray;
          a = fold (processResponse prices) responses \<lparr>combinedData = [], monthlyDataMap = []\<rparr>;
          monthlyData = sort_key month (map finalizeMonth (map snd (monthlyDataMap a)))
      in \<lparr>lastUpdated = nowISO,
          hourly = sort_key getTime (combinedData a),
          monthly = monthlyData\<rparr>)"

text \<open>
  \<^verbatim>\<open>shouldUpdateData\<close>, lines 27-45. \<open>localDate\<close> reads a time stamp as a date in the
  time zone of the device and \<open>now\<close> is the date of the clock.
\<close>

record local_date =
  getFullYear :: int
  getMonth :: int
  getDate :: int

definition shouldUpdateData :: "(string \<Rightarrow> local_date) \<Rightarrow> local_date \<Rightarrow> string option \<Rightarrow> bool" where
  "shouldUpdateData localDate now lastUpdatedOpt =
     (case lastUpdatedOpt of
        None \<Rightarrow> True
      | Some s \<Rightarrow>
          if s = [] then True
          else
            (let lastUpdate = localDate s;
                 isCurrentYear = (getFullYear lastUpdate = getFullYear now)
             in if isCurrentYear
                then getDate lastUpdate \<noteq> getDate now \<or> getMonth lastUpdate \<noteq> getMonth now
                     \<or> getFullYear lastUpdate \<noteq> getFullYear now
                else False))"

text \<open>
  The \<^verbatim>\<open>try\<close> block of \<^verbatim>\<open>combineData\<close>, lines 104-310: the consumption is fetched
  first, then the prices, and an error of either fetch ends the block. The two arguments
  are what the two fetches give.
\<close>

definition fetchAndCombine ::
  "string \<Rightarrow> error + MeterReadingResponse option list \<Rightarrow> error + PriceData list
   \<Rightarrow> error + YearData" where
  "fetchAndCombine nowISO consumptionFetch priceFetch =
     (case consumptionFetch of
        Inl e \<Rightarrow> Inl e
      | Inr responses \<Rightarrow>
          (case priceFetch of
             Inl e \<Rightarrow> Inl e
           | Inr pricesArray \<Rightarrow> Inr (reconcile responses pricesArray nowISO)))"

text \<open>
  \<^verbatim>\<open>combineData(year)\<close>, lines 89-323. \<open>cachedData\<close> is what \<^verbatim>\<open>getCachedData\<close>
  returned: the data of a cache file that exists and has the three fields, else
  \<open>None\<close>. The write to the cache after a fresh result is not awaited and its errors
  are swallowed; it is not part of the value returned.
\<close>

definition combineData ::
  "(string \<Rightarrow> local_date) \<Rightarrow> local_date \<Rightarrow> string \<Rightarrow> YearData option
   \<Rightarrow> error + MeterReadingResponse option list \<Rightarrow> error + PriceData list
   \<Rightarrow> error + YearData" where
  "combineData localDate now nowISO cachedData consumptionFetch priceFetch =
     (case cachedData of
        Some cached \<Rightarrow>
          if \<not> shouldUpdateData localDate now (Some (lastUpdated cached)) then Inr cached
          else
            (case fetchAndCombine nowISO consumptionFetch priceFetch of
               Inr yearData \<Rightarrow> Inr yearData
             | Inl e \<Rightarrow> Inr cached)
      | None \<Rightarrow>
          (case fetchAndCombine nowISO consumptionFetch priceFetch of
             Inr yearData \<Rightarrow> Inr yearData
           | Inl e \<Rightarrow> Inl e))"




section \<open>Concrete inputs\<close>

text \<open>
  The reading of the night of the change to summer time in Finland, 1500 Wh, and the
  price of that hour, 6.28 cents with the VAT.
\<close>

definition dst_reading :: reading where
  "dst_reading = \<lparr>t = JString ''2024-03-31T02:30:00+02:00'', v = JNumber 1500\<rparr>"


definition dst_prices :: "PriceData list" where
  "dst_prices = [\<lparr>timeStamp = ''2024-03-31T00:30:00Z'', pvalue = JNumber (628 / 100)\<rparr>]"


text \<open>
  A raw price row of 10 cents, and a device whose clock shows the hour that the time
  stamp of a row has in writing.
\<close>

definition stamp_hour :: "string \<Rightarrow> int" where
  "stamp_hour ts = (case num_of (take 2 (drop 11 ts)) of None \<Rightarrow> - 1 | Some h \<Rightarrow> int h)"

definition raw_price_rows :: "PriceData list" where
  "raw_price_rows = [\<lparr>timeStamp = ''2024-03-31T00:30:00Z'', pvalue = JNumber 10\<rparr>]"

text \<open>A month with two empty arrays, and a month with a reading in each variant.\<close>

definition both_empty_month :: month_group where
  "both_empty_month = \<lparr>hourly_values_netted = Some [], hourly_values = Some []\<rparr>"

definition gross_reading :: reading where
  "gross_reading = \<lparr>t = JString ''2024-03-31T02:30:00+02:00'', v = JNumber 1700\<rparr>"

definition both_variants_month :: month_group where
  "both_variants_month =
     \<lparr>hourly_values_netted = Some [dst_reading], hourly_values = Some [gross_reading]\<rparr>"


text \<open>
  A device in UTC: it reads the date of a time stamp as written. A data set cached on
  the first of June 2024, and the second of June as the day of the clock.
\<close>

definition utc_date :: "string \<Rightarrow> local_date" where
  "utc_date s =
     \<lparr>getFullYear = (case num_of (take 4 s) of None \<Rightarrow> 0 | Some y \<Rightarrow> int y),
      getMonth = (case num_of (take 2 (drop 5 s)) of None \<Rightarrow> 0 | Some m \<Rightarrow> int m - 1),
      getDate = (case num_of (take 2 (drop 8 s)) of None \<Rightarrow> 0 | Some d \<Rightarrow> int d)\<rparr>"

definition stale_2024 :: YearData where
  "stale_2024 = \<lparr>lastUpdated = ''2024-06-01T08:00:00.000Z'', hourly = [], monthly = []\<rparr>"

definition day_after :: local_date where
  "day_after = \<lparr>getFullYear = 2024, getMonth = 5, getDate = 2\<rparr>"

section \<open>Notions of the statements\<close>

text \<open>A number with at most \<open>n\<close> decimal places: rounding to \<open>n\<close> places keeps it.\<close>

definition decimals :: "nat \<Rightarrow> rat \<Rightarrow> bool" where
  "decimals n x = (toFixed n x = x)"











section \<open>Properties of the resilient request\<close>

lemma retry_rejected_step:
  assumes "request attempt = Rejected err" and "int attempt < int m - 1"
  shows "makeRequestWithRetry m request attempt =
         after_wait (2 ^ attempt) (makeRequestWithRetry m request (attempt + 1))"
  using assms by (subst makeRequestWithRetry.simps) simp

lemma retry_rejected_last:
  assumes "request attempt = Rejected err" and "\<not> int attempt < int m - 1"
  shows "makeRequestWithRetry m request attempt = \<lparr>result = Inl err, waits = [], calls = 1\<rparr>"
  using assms by (subst makeRequestWithRetry.simps) simp

lemma retry_resolved_other:
  assumes "request attempt = Resolved response" and "status response \<noteq> 504"
  shows "makeRequestWithRetry m request attempt =
         \<lparr>result = Inr response, waits = [], calls = 1\<rparr>"
  using assms by (subst makeRequestWithRetry.simps) simp

lemma calls_positive: "0 < calls (makeRequestWithRetry m request attempt)"
  by (subst makeRequestWithRetry.simps)
     (simp add: after_wait_def split: outcome.split)

text \<open>
  A run in which every remaining attempt is rejected, started at any attempt index \<open>a\<close>
  below the budget: it uses the whole budget and throws the error of the last attempt.
\<close>

lemma all_rejected_from:
  assumes "a < m" and "\<forall>k<m. request k = Rejected (err k)"
  shows "makeRequestWithRetry m request a =
         \<lparr>result = Inl (err (m - 1)), waits = map (\<lambda>i. 2 ^ i) [a..<m - 1], calls = m - a\<rparr>"
  using assms
proof (induction "m - a" arbitrary: a)
  case 0
  then show ?case by simp
next
  case (Suc d)
  have ra: "request a = Rejected (err a)" using Suc.prems by simp
  show ?case
  proof (cases "int a < int m - 1")
    case True
    then have lt: "a + 1 < m" by linarith
    have d: "d = m - (a + 1)" using Suc.hyps(2) by linarith
    have ih: "makeRequestWithRetry m request (a + 1) =
              \<lparr>result = Inl (err (m - 1)), waits = map (\<lambda>i. 2 ^ i) [a + 1..<m - 1],
               calls = m - (a + 1)\<rparr>"
      using Suc.hyps(1) [OF d lt Suc.prems(2)] .
    have up: "[a..<m - 1] = a # [a + 1..<m - 1]"
      using lt by (simp add: upt_conv_Cons)
    have c: "Suc (m - (a + 1)) = m - a" using lt by linarith
    have step: "makeRequestWithRetry m request a =
                after_wait (2 ^ a) (makeRequestWithRetry m request (a + 1))"
      using ra True by (rule retry_rejected_step)
    show ?thesis
      unfolding step ih after_wait_def up using c by simp
  next
    case False
    then have am: "a = m - 1" using Suc.prems(1) by linarith
    then have e: "[a..<m - 1] = []" and c: "m - a = 1" using Suc.prems(1) by simp_all
    have stop: "makeRequestWithRetry m request a =
                \<lparr>result = Inl (err a), waits = [], calls = 1\<rparr>"
      using ra False by (rule retry_rejected_last)
    have l: "err a = err (m - 1)" using am by simp
    show ?thesis
      unfolding stop e c l by simp
  qed
qed

text \<open>
  C6, as the code has it. Claimed: a non-transient error status (an authentication
  failure) fails at once, after the first attempt, with no retry. The \<^verbatim>\<open>catch\<close>
  block of \<^verbatim>\<open>makeRequestWithRetry\<close> does not look at the error: with the budget of
  five, a request that is refused as unauthorised every time is sent five times, after
  waits of 1, 2, 4 and 8 seconds, before the error is thrown.
\<close>

theorem auth_failure_is_retried:
  "calls (makeRequestWithRetry maxRetries always_unauthorized 0) = 5
   \<and> waits (makeRequestWithRetry maxRetries always_unauthorized 0) = [1, 2, 4, 8]
   \<and> result (makeRequestWithRetry maxRetries always_unauthorized 0) = Inl (StatusError 401)"
proof -
  have "makeRequestWithRetry 5 always_unauthorized 0 =
        \<lparr>result = Inl (StatusError 401), waits = map (\<lambda>i. 2 ^ i) [0..<5 - 1], calls = 5 - 0\<rparr>"
    by (rule all_rejected_from) (simp_all add: always_unauthorized_def)
  moreover have "[0..<4] = [0, 1, 2, 3::nat]" by (simp add: upt_rec)
  ultimately show ?thesis by (simp add: maxRetries_def)
qed

text \<open>
  C6, amended. Whatever the error of a rejected first attempt is (a network failure or
  any error status, an authentication failure included), a budget of at least two makes
  the client sleep one second and try again; and the client stops after its first
  attempt exactly when the budget is at most one or the call resolved with a status
  other than 504.
\<close>

theorem retry_on_any_rejection:
  "(request 0 = Rejected err \<and> 2 \<le> m \<longrightarrow>
      2 \<le> calls (makeRequestWithRetry m request 0)
      \<and> (\<exists>ws. waits (makeRequestWithRetry m request 0) = 1 # ws))
   \<and> (calls (makeRequestWithRetry m request 0) = 1 \<longleftrightarrow>
      m \<le> 1 \<or> (\<exists>response. request 0 = Resolved response \<and> status response \<noteq> 504))"
proof (intro conjI impI)
  assume a: "request 0 = Rejected err \<and> 2 \<le> m"
  then have lt: "int 0 < int m - 1" by simp
  have step: "makeRequestWithRetry m request 0 =
              after_wait (2 ^ 0) (makeRequestWithRetry m request (0 + 1))"
    using a lt by (intro retry_rejected_step) simp_all
  show "2 \<le> calls (makeRequestWithRetry m request 0)"
    using calls_positive [of m request "0 + 1"] by (simp add: step after_wait_def)
  show "\<exists>ws. waits (makeRequestWithRetry m request 0) = 1 # ws"
    by (simp add: step after_wait_def)
next
  show "calls (makeRequestWithRetry m request 0) = 1 \<longleftrightarrow>
        m \<le> 1 \<or> (\<exists>response. request 0 = Resolved response \<and> status response \<noteq> 504)"
    using calls_positive [of m request "0 + 1"]
    by (subst makeRequestWithRetry.simps)
       (auto simp: after_wait_def split: outcome.split)
qed

theorem retry_on_any_rejection_witness:
  "always_unauthorized 0 = Rejected (StatusError 401) \<and> (2::nat) \<le> 5
   \<and> 2 \<le> calls (makeRequestWithRetry 5 always_unauthorized 0)
   \<and> (\<exists>ws. waits (makeRequestWithRetry 5 always_unauthorized 0) = 1 # ws)
   \<and> always_ok 0 = Resolved ok_response \<and> status ok_response \<noteq> 504
   \<and> calls (makeRequestWithRetry 5 always_ok 0) = 1"
proof -
  have r: "always_unauthorized 0 = Rejected (StatusError 401)"
    by (simp add: always_unauthorized_def)
  have k: "always_ok 0 = Resolved ok_response \<and> status ok_response \<noteq> 504"
    by (simp add: always_ok_def ok_response_def)
  have "calls (makeRequestWithRetry 5 always_ok 0) = 1"
    using retry_on_any_rejection [of always_ok "StatusError 401" 5] k by blast
  moreover have "2 \<le> calls (makeRequestWithRetry 5 always_unauthorized 0)
      \<and> (\<exists>ws. waits (makeRequestWithRetry 5 always_unauthorized 0) = 1 # ws)"
    using retry_on_any_rejection [of always_unauthorized "StatusError 401" 5] r by simp
  ultimately show ?thesis using r k by simp
qed

text \<open>
  C7. A request that is rejected at every attempt is sent exactly \<open>m\<close> times when the
  budget \<open>m\<close> is at least one, so the attempt after the last of the budget is never made;
  before the attempt with index \<open>i + 1\<close> (the attempt number \<open>k = i + 2\<close>) the client
  sleeps \<open>2 ^ i = 2 ^ (k - 2)\<close> seconds; and it throws the error of the last attempt.
  With the budget of five the sleeps are 1, 2, 4 and 8 seconds, 15 in all.
\<close>

theorem exhausted_retries:
  assumes "1 \<le> m" and "\<forall>k<m. request k = Rejected (err k)"
  shows "calls (makeRequestWithRetry m request 0) = m
         \<and> waits (makeRequestWithRetry m request 0) = map (\<lambda>i. 2 ^ i) [0..<m - 1]
         \<and> result (makeRequestWithRetry m request 0) = Inl (err (m - 1))"
proof -
  have "0 < m" using assms(1) by simp
  then show ?thesis by (simp add: all_rejected_from [OF _ assms(2)])
qed

theorem exhausted_retries_witness:
  "(1::nat) \<le> maxRetries
   \<and> always_unreachable 0 = Rejected NetworkError
   \<and> always_unreachable 4 = Rejected NetworkError
   \<and> calls (makeRequestWithRetry maxRetries always_unreachable 0) = 5
   \<and> waits (makeRequestWithRetry maxRetries always_unreachable 0) = [1, 2, 4, 8]
   \<and> sum_list (waits (makeRequestWithRetry maxRetries always_unreachable 0)) = 15
   \<and> result (makeRequestWithRetry maxRetries always_unreachable 0) = Inl NetworkError"
proof -
  have h1: "(1::nat) \<le> maxRetries" by (simp add: maxRetries_def)
  have h2: "\<forall>k<maxRetries. always_unreachable k = Rejected ((\<lambda>_. NetworkError) k)"
    by (simp add: always_unreachable_def)
  have u: "[0..<4] = [0, 1, 2, 3::nat]" by (simp add: upt_rec)
  show ?thesis
    using exhausted_retries [OF h1 h2] h1 h2 u by (simp add: maxRetries_def)
qed

section \<open>The VAT of the two price paths\<close>

text \<open>
  C9. Claimed: the yearly price series and the current price get one and the same fixed
  markup. The two paths carry their own constants, 25.5 per cent in
  \<^verbatim>\<open>fetchPriceData\<close> and 24 per cent in \<^verbatim>\<open>getCurrentSpotPrice\<close>: a raw value
  of 10 is exposed as 12.55 in the yearly series and as 12.4 as the current price.
\<close>

theorem vat_rates_differ:
  "fetchPriceData (Inr raw_price_rows) =
     Inr [\<lparr>timeStamp = ''2024-03-31T00:30:00Z'', pvalue = JNumber (1255 / 100)\<rparr>]
   \<and> getCurrentSpotPrice stamp_hour 0 (Inr raw_price_rows) =
     Inr \<lparr>spot_price = JNumber (124 / 10), spot_timestamp = ''2024-03-31T00:30:00Z''\<rparr>
   \<and> fetchPriceData_VAT_RATE = 255 / 1000 \<and> getCurrentSpotPrice_VAT_RATE = 240 / 1000"
  by code_simp

section \<open>The months returned by getMeterReadings\<close>

lemma normalizeMonth_netted:
  assumes "nonEmpty (hourly_values_netted mg)"
  shows "hourly_values_netted (normalizeMonth conv mg) =
           map_option (convertReadings conv) (hourly_values_netted mg)
         \<and> hourly_values (normalizeMonth conv mg) = None"
  using assms by (simp add: normalizeMonth_def)

lemma normalizeMonth_gross:
  assumes "\<not> nonEmpty (hourly_values_netted mg)" and "nonEmpty (hourly_values mg)"
  shows "hourly_values (normalizeMonth conv mg) =
           map_option (convertReadings conv) (hourly_values mg)
         \<and> hourly_values_netted (normalizeMonth conv mg) = None"
  using assms by (simp add: normalizeMonth_def)

lemma normalizeMonth_neither:
  assumes "\<not> nonEmpty (hourly_values_netted mg)" and "\<not> nonEmpty (hourly_values mg)"
  shows "normalizeMonth conv mg = mg"
  using assms by (simp add: normalizeMonth_def)

lemma nonEmpty_convert [simp]:
  "nonEmpty (map_option (convertReadings conv) rs) = nonEmpty rs"
  by (cases rs) (simp_all add: nonEmpty_def convertReadings_def)

lemma nonEmpty_None [simp]: "\<not> nonEmpty None"
  by (simp add: nonEmpty_def)

text \<open>
  C10, as the code has it. Claimed: every month returned has at most one variant
  defined. A month that arrives with two empty arrays passes both tests of
  \<^verbatim>\<open>length > 0\<close> and is returned as it came, with both variants defined.
\<close>

theorem both_empty_stay_defined:
  "getMeterReadings_months id [both_empty_month] = [both_empty_month]
   \<and> hourly_values_netted both_empty_month \<noteq> None
   \<and> hourly_values both_empty_month \<noteq> None"
  by (simp add: getMeterReadings_months_def normalizeMonth_def nonEmpty_def both_empty_month_def)

text \<open>
  C10, amended. In every month returned at most one variant is non-empty. A month whose
  netted variant was non-empty keeps it, with the time stamps converted, and has the
  other variant undefined; otherwise a month whose other variant was non-empty keeps
  that one, converted, and has the netted variant undefined; a month with neither
  variant non-empty is returned unchanged.
\<close>

theorem at_most_one_variant_populated:
  "(\<forall>mg' \<in> set (getMeterReadings_months conv ms).
      \<not> (nonEmpty (hourly_values_netted mg') \<and> nonEmpty (hourly_values mg')))
   \<and> (nonEmpty (hourly_values_netted mg) \<longrightarrow>
        hourly_values_netted (normalizeMonth conv mg) =
          map_option (convertReadings conv) (hourly_values_netted mg)
        \<and> hourly_values (normalizeMonth conv mg) = None)
   \<and> (\<not> nonEmpty (hourly_values_netted mg) \<and> nonEmpty (hourly_values mg) \<longrightarrow>
        hourly_values (normalizeMonth conv mg) =
          map_option (convertReadings conv) (hourly_values mg)
        \<and> hourly_values_netted (normalizeMonth conv mg) = None)
   \<and> (\<not> nonEmpty (hourly_values_netted mg) \<and> \<not> nonEmpty (hourly_values mg) \<longrightarrow>
        normalizeMonth conv mg = mg)"
proof (intro conjI ballI impI)
  fix mg' assume "mg' \<in> set (getMeterReadings_months conv ms)"
  then obtain m0 where m0: "mg' = normalizeMonth conv m0"
    by (auto simp: getMeterReadings_months_def)
  show "\<not> (nonEmpty (hourly_values_netted mg') \<and> nonEmpty (hourly_values mg'))"
    unfolding m0 by (simp add: normalizeMonth_def)
qed (simp_all add: normalizeMonth_netted normalizeMonth_gross normalizeMonth_neither)

theorem at_most_one_variant_populated_witness:
  "both_variants_month \<in> set [both_variants_month, both_empty_month]
   \<and> getMeterReadings_months id [both_variants_month, both_empty_month] =
       [\<lparr>hourly_values_netted = Some [dst_reading], hourly_values = None\<rparr>, both_empty_month]
   \<and> \<not> (nonEmpty (hourly_values_netted (normalizeMonth id both_variants_month))
        \<and> nonEmpty (hourly_values (normalizeMonth id both_variants_month)))
   \<and> nonEmpty (hourly_values_netted both_variants_month)
   \<and> hourly_values (normalizeMonth id both_variants_month) = None
   \<and> normalizeMonth id both_empty_month = both_empty_month"
proof -
  have n: "nonEmpty (hourly_values_netted both_variants_month)"
    by (simp add: both_variants_month_def nonEmpty_def)
  have e: "\<not> nonEmpty (hourly_values_netted both_empty_month)
           \<and> \<not> nonEmpty (hourly_values both_empty_month)"
    by (simp add: both_empty_month_def nonEmpty_def)
  have c: "convertReadings id [dst_reading] = [dst_reading]"
    by (simp add: convertReadings_def)
  have 1: "hourly_values (normalizeMonth id both_variants_month) = None
           \<and> hourly_values_netted (normalizeMonth id both_variants_month) = Some [dst_reading]"
    using at_most_one_variant_populated [of id "[]" both_variants_month] n c
    by (simp add: both_variants_month_def)
  have 2: "normalizeMonth id both_empty_month = both_empty_month"
    using at_most_one_variant_populated [of id "[]" both_empty_month] e by simp
  have 3: "normalizeMonth id both_variants_month =
           \<lparr>hourly_values_netted = Some [dst_reading], hourly_values = None\<rparr>"
    using 1 by (cases "normalizeMonth id both_variants_month") simp
  show ?thesis
    using n 1 2 3 by (simp add: getMeterReadings_months_def)
qed

section \<open>The choice of the reading variant\<close>







section \<open>The fallback to the cache\<close>

text \<open>
  C5. When fetching and combining fails with an error and \<^verbatim>\<open>getCachedData\<close> gave a
  data set, stale or not, \<^verbatim>\<open>combineData\<close> returns that data set and no error; when
  it gave none, the same error is thrown.
\<close>

theorem stale_cache_fallback:
  assumes "fetchAndCombine nowISO consumptionFetch priceFetch = Inl e"
  shows "(cachedData = Some cached \<longrightarrow>
            combineData localDate now nowISO cachedData consumptionFetch priceFetch = Inr cached)
         \<and> (cachedData = None \<longrightarrow>
            combineData localDate now nowISO cachedData consumptionFetch priceFetch = Inl e)"
  using assms by (simp add: combineData_def)

theorem stale_cache_fallback_witness:
  "fetchAndCombine ''2024-06-02T09:00:00.000Z'' (Inl NetworkError) (Inr dst_prices) = Inl NetworkError
   \<and> shouldUpdateData utc_date day_after (Some (lastUpdated stale_2024))
   \<and> combineData utc_date day_after ''2024-06-02T09:00:00.000Z'' (Some stale_2024)
        (Inl NetworkError) (Inr dst_prices) = Inr stale_2024
   \<and> combineData utc_date day_after ''2024-06-02T09:00:00.000Z'' None
        (Inl NetworkError) (Inr dst_prices) = Inl NetworkError"
proof -
  have f: "fetchAndCombine ''2024-06-02T09:00:00.000Z'' (Inl NetworkError) (Inr dst_prices)
           = Inl NetworkError"
    by (simp add: fetchAndCombine_def)
  have s: "shouldUpdateData utc_date day_after (Some (lastUpdated stale_2024))"
    by code_simp
  show ?thesis
    using stale_cache_fallback [OF f, of "Some stale_2024" stale_2024 utc_date day_after]
      stale_cache_fallback [OF f, of None stale_2024 utc_date day_after] f s
    by simp
qed

section \<open>Rounding to a number of decimals\<close>

lemma floor_int_half: "\<lfloor>(of_int k :: rat) + 1 / 2\<rfloor> = k"
  by (rule floor_unique) simp_all

lemma toFixed_of_int: "toFixed n (of_int k / 10 ^ n) = of_int k / 10 ^ n"
proof (cases "k < 0")
  case True
  then have neg: "(of_int k :: rat) / 10 ^ n < 0"
    by (simp add: divide_neg_pos)
  have "(- ((of_int k :: rat) / 10 ^ n)) * 10 ^ n + 1 / 2 = of_int (- k) + 1 / 2"
    by simp
  then have "\<lfloor>(- ((of_int k :: rat) / 10 ^ n)) * 10 ^ n + 1 / 2\<rfloor> = - k"
    using floor_int_half [of "- k"] by simp
  then show ?thesis using neg by (simp add: toFixed_def)
next
  case False
  then have nonneg: "\<not> (of_int k :: rat) / 10 ^ n < 0"
    by (simp add: divide_less_0_iff)
  have "((of_int k :: rat) / 10 ^ n) * 10 ^ n + 1 / 2 = of_int k + 1 / 2"
    by simp
  then have "\<lfloor>((of_int k :: rat) / 10 ^ n) * 10 ^ n + 1 / 2\<rfloor> = k"
    using floor_int_half [of k] by simp
  then show ?thesis using nonneg by (simp add: toFixed_def)
qed

lemma toFixed_is_scaled_int: "\<exists>k::int. toFixed n x = of_int k / 10 ^ n"
proof (cases "x < 0")
  case True
  then have "toFixed n x = of_int (- \<lfloor>(- x) * 10 ^ n + 1 / 2\<rfloor>) / 10 ^ n"
    by (simp add: toFixed_def)
  then show ?thesis by blast
next
  case False
  then have "toFixed n x = of_int \<lfloor>x * 10 ^ n + 1 / 2\<rfloor> / 10 ^ n"
    by (simp add: toFixed_def)
  then show ?thesis by blast
qed

lemma decimals_iff: "decimals n x \<longleftrightarrow> (\<exists>k::int. x = of_int k / 10 ^ n)"
proof
  assume "decimals n x"
  then have "toFixed n x = x" by (simp add: decimals_def)
  then show "\<exists>k::int. x = of_int k / 10 ^ n"
    using toFixed_is_scaled_int [of n x] by simp
next
  assume "\<exists>k::int. x = of_int k / 10 ^ n"
  then show "decimals n x" by (auto simp: decimals_def toFixed_of_int)
qed

lemma decimals_toFixed [simp]: "decimals n (toFixed n x)"
  using toFixed_is_scaled_int [of n x] by (simp add: decimals_iff)

lemma decimals_zero [simp]: "decimals n 0"
  unfolding decimals_iff by (rule exI [of _ 0]) simp





lemma toFixed_zero [simp]: "toFixed n 0 = 0"
  using decimals_zero [of n] by (simp add: decimals_def)

section \<open>The loops over the readings\<close>



















lemma month_finalizeMonth [simp]: "month (finalizeMonth md) = month md"
  by (simp add: finalizeMonth_def Let_def)





section \<open>The join key\<close>




section \<open>The cost of a record\<close>




section \<open>The monthly summaries\<close>




section \<open>The order of the output\<close>



end
